theory Spec2Isabelle
  imports Main
begin

section \<open>Data model\<close>

text \<open>
  The session lifecycle of the bot: \<^verbatim>\<open>GameStateManager\<close> (registry of gameboards,
  member cooldowns, \<^verbatim>\<open>requestDuel\<close>, \<^verbatim>\<open>createGame\<close>, \<^verbatim>\<open>endGame\<close>) and the
  invitation part of \<^verbatim>\<open>GameCommand\<close>.

  JavaScript objects are compared by reference. A value of the model stands for one
  object: members are told apart by their user, and the objects made with \<^verbatim>\<open>new\<close>
  during a call (\<^verbatim>\<open>AI\<close>, \<^verbatim>\<open>GameBoard\<close>, \<^verbatim>\<open>DuelRequest\<close>) carry the reference
  that the allocation counter of the state handed out.
\<close>

type_synonym ChannelRef = nat
type_synonym Message = nat

record GuildMember =
  user_id :: string
  user_bot :: bool

record MessagingTunnel =
  author :: GuildMember
  channel :: ChannelRef

text \<open>
  \<^verbatim>\<open>new AI(level)\<close>: the object keeps the argument of its constructor, \<open>None\<close> for
  \<^verbatim>\<open>undefined\<close> (the constructor then takes its own default level).
\<close>

record AI =
  ai_ref :: nat
  ai_level :: "nat option"

datatype Entity = Member GuildMember | Computer AI

text \<open>
  The fields of the configuration that the manager reads, \<open>None\<close> when unset. The
  numbers that matter here are whole: the cooldown in seconds, \<^verbatim>\<open>Date.now()\<close> in
  milliseconds.
\<close>

record Config =
  requestExpireTime :: "int option"
  requestReactions :: "bool option"
  embedColor :: "int option"
  requestCooldownTime :: "int option"
  aiDifficulty :: "string option"

record GameBoard =
  board_ref :: nat
  board_tunnel :: MessagingTunnel
  entities :: "Entity list"
  board_config :: Config

record DuelRequest =
  duel_ref :: nat
  duel_tunnel :: MessagingTunnel
  duel_invited :: GuildMember
  expireTime :: "int option"
  useReactions :: "bool option"
  color :: "int option"

text \<open>What \<^verbatim>\<open>tunnel.replyWith\<close> is given: \<^verbatim>\<open>duel.content\<close> or \<^verbatim>\<open>gameboard.content\<close>.\<close>

datatype content = DuelContent DuelRequest | BoardContent GameBoard

text \<open>
  A thrown value or the reason of a rejected promise. The code reads only its
  \<^verbatim>\<open>message\<close> property (\<open>None\<close> when the value has none).
\<close>

datatype thrown = Thrown (message: "string option")

text \<open>How a promise settles; \<^verbatim>\<open>Promise.reject()\<close> rejects with \<^verbatim>\<open>undefined\<close>.\<close>

datatype 'r promise = Resolved | Rejected 'r

text \<open>The payloads given to \<^verbatim>\<open>eventHandler.emitEvent\<close>, by event name.\<close>

datatype event =
    NewGame "Entity list"
  | Win Entity "Entity option"
  | Tie "Entity list"

text \<open>The \<^verbatim>\<open>winner?: Entity | null\<close> argument of \<^verbatim>\<open>endGame\<close>.\<close>

datatype winner_arg = Undefined | Null | Winner Entity

text \<open>
  The effects of a call, in the order the code performs them: calls of the validator
  (which reads the registry), emitted events, the append to and the removal from the
  \<^verbatim>\<open>gameboards\<close> array, awaited promises and writes of the cooldown map.
\<close>

datatype validator_fn = IsInteractionValid | IsNewGamePossible

datatype awaited = ReplyWith MessagingTunnel content | DuelAttachTo nat Message | BoardAttachTo nat Message

datatype action =
    Validate validator_fn
  | Emit event
  | Push GameBoard
  | Splice int
  | Await awaited
  | SetCooldown string int

text \<open>
  The state of the manager: its two collections, the counter of allocated objects and
  the effects performed so far.
\<close>

record state =
  gameboards :: "GameBoard list"
  memberCooldownEndTimes :: "string \<rightharpoonup> int"
  allocated :: nat
  trace :: "action list"

text \<open>
  What the manager and the command are given from outside \<^verbatim>\<open>src/\<close>: the two decisions
  of \<^verbatim>\<open>GameStateValidator\<close> (functions of the manager's state), the listeners behind
  \<^verbatim>\<open>emitEvent\<close> (\<open>Some e\<close>: a listener throws \<open>e\<close>), the promises of
  \<^verbatim>\<open>replyWith\<close> and \<^verbatim>\<open>attachTo\<close> (\<open>Inl e\<close>, \<open>Some e\<close>: rejected with \<open>e\<close>),
  \<^verbatim>\<open>Date.now()\<close>, the permissions of discord.js, the \<^verbatim>\<open>AIDifficultyLevel\<close> enum
  and the configuration of the bot.
\<close>

record Collaborators =
  isInteractionValid :: "state \<Rightarrow> MessagingTunnel \<Rightarrow> bool"
  isNewGamePossible :: "state \<Rightarrow> MessagingTunnel \<Rightarrow> GuildMember option \<Rightarrow> bool"
  listeners :: "event \<Rightarrow> thrown option"
  replyWith :: "MessagingTunnel \<Rightarrow> content \<Rightarrow> thrown + Message"
  duel_attachTo :: "DuelRequest \<Rightarrow> Message \<Rightarrow> thrown option"
  board_attachTo :: "GameBoard \<Rightarrow> Message \<Rightarrow> thrown option"
  date_now :: int
  permissionsIn :: "GuildMember \<Rightarrow> ChannelRef \<Rightarrow> string list"
  AIDifficultyLevel :: "string \<Rightarrow> nat option"
  configuration :: Config

section \<open>Array operations of JavaScript\<close>

text \<open>\<^verbatim>\<open>Array.prototype.indexOf\<close>: the first index of the element, \<open>-1\<close> when absent.\<close>

fun indexOf :: "'a list \<Rightarrow> 'a \<Rightarrow> int" where
  "indexOf [] x = - 1"
| "indexOf (y # ys) x =
     (if y = x then 0
      else (let i = indexOf ys x in if i < 0 then - 1 else i + 1))"

text \<open>
  \<^verbatim>\<open>Array.prototype.splice(start, deleteCount)\<close>: a negative start counts from the end
  (not below 0), a start beyond the end is the end.
\<close>

definition splice_js :: "int \<Rightarrow> nat \<Rightarrow> 'a list \<Rightarrow> 'a list" where
  "splice_js start deleteCount xs =
     (let len = int (length xs);
          actualStart = (if start < 0 then max (len + start) 0 else min start len)
      in take (nat actualStart) xs @ drop (nat actualStart + deleteCount) xs)"

section \<open>GameStateManager\<close>

definition perform :: "action \<Rightarrow> state \<Rightarrow> state" where
  "perform a s = s\<lparr>trace := trace s @ [a]\<rparr>"

text \<open>
  Modelled from the spec: \<^verbatim>\<open>EventHandler.emitEvent\<close> is not under \<^verbatim>\<open>src/\<close>. It calls
  the listeners of the event, and a listener may throw (the comment of \<^verbatim>\<open>createGame\<close>
  relies on it); the exception reaches the caller of \<^verbatim>\<open>emitEvent\<close>.
\<close>

definition emitEvent :: "Collaborators \<Rightarrow> event \<Rightarrow> state \<Rightarrow> thrown option \<times> state" where
  "emitEvent E ev s = (listeners E ev, perform (Emit ev) s)"

text \<open>
  \<^verbatim>\<open>endGame\<close>. A winner that is an entity is truthy; \<^verbatim>\<open>null\<close> is told apart from
  \<^verbatim>\<open>undefined\<close> by \<^verbatim>\<open>winner === null\<close>. The loser is the first entity of the gameboard
  that is not the winner. The result is \<open>Some e\<close> when a listener throws \<open>e\<close>: the
  exception leaves \<^verbatim>\<open>endGame\<close> before the \<^verbatim>\<open>splice\<close>.
\<close>

definition endGame :: "Collaborators \<Rightarrow> GameBoard \<Rightarrow> winner_arg \<Rightarrow> state \<Rightarrow> thrown option \<times> state" where
  "endGame E gameboard winner s =
     (case (case winner of
              Winner w \<Rightarrow> emitEvent E (Win w (find (\<lambda>entity. entity \<noteq> w) (entities gameboard))) s
            | Null \<Rightarrow> emitEvent E (Tie (entities gameboard)) s
            | Undefined \<Rightarrow> (None, s)) of
        (Some e, s1) \<Rightarrow> (Some e, s1)
      | (None, s1) \<Rightarrow>
          (let i = indexOf (gameboards s1) gameboard
           in (None, perform (Splice i) (s1\<lparr>gameboards := splice_js i 1 (gameboards s1)\<rparr>))))"

text \<open>
  \<^verbatim>\<open>createAI\<close>: the level is looked up in the enum when \<^verbatim>\<open>aiDifficulty\<close> is truthy
  (set and not the empty string), and is \<^verbatim>\<open>undefined\<close> otherwise. \<^verbatim>\<open>new AI\<close> takes the
  next object reference.
\<close>

definition createAI :: "Collaborators \<Rightarrow> state \<Rightarrow> AI \<times> state" where
  "createAI E s =
     (let level = (case aiDifficulty (configuration E) of
                     None \<Rightarrow> None
                   | Some d \<Rightarrow> if d = [] then None else AIDifficultyLevel E d)
      in (\<lparr>ai_ref = allocated s, ai_level = level\<rparr>, s\<lparr>allocated := Suc (allocated s)\<rparr>))"

text \<open>
  Modelled from the spec: the constructor of \<^verbatim>\<open>GameBoard\<close> is not under \<^verbatim>\<open>src/\<close>. A
  gameboard holds its tunnel, a snapshot of the configuration and exactly two entities:
  the author of the tunnel and the second participant it is constructed with.
\<close>

definition new_GameBoard :: "MessagingTunnel \<Rightarrow> Entity \<Rightarrow> Config \<Rightarrow> state \<Rightarrow> GameBoard \<times> state" where
  "new_GameBoard tunnel member2 config s =
     (\<lparr>board_ref = allocated s, board_tunnel = tunnel,
       entities = [Member (author tunnel), member2], board_config = config\<rparr>,
      s\<lparr>allocated := Suc (allocated s)\<rparr>)"

text \<open>
  Modelled from the spec: the constructor of \<^verbatim>\<open>DuelRequest\<close> is not under \<^verbatim>\<open>src/\<close>. It
  keeps its arguments and performs no input or output.
\<close>

definition new_DuelRequest ::
  "MessagingTunnel \<Rightarrow> GuildMember \<Rightarrow> int option \<Rightarrow> bool option \<Rightarrow> int option \<Rightarrow> state \<Rightarrow> DuelRequest \<times> state" where
  "new_DuelRequest tunnel invited expire reactions embedCol s =
     (\<lparr>duel_ref = allocated s, duel_tunnel = tunnel, duel_invited = invited,
       expireTime = expire, useReactions = reactions, color = embedCol\<rparr>,
      s\<lparr>allocated := Suc (allocated s)\<rparr>)"

text \<open>
  An \<^verbatim>\<open>await\<close>: the call is suspended there, and goes on with the value of the promise
  or throws its rejection. The model follows one call; what other calls do to the state
  while this one is suspended is outside it.
\<close>

definition await_replyWith :: "Collaborators \<Rightarrow> MessagingTunnel \<Rightarrow> content \<Rightarrow> state \<Rightarrow> (thrown + Message) \<times> state" where
  "await_replyWith E tunnel c s = (replyWith E tunnel c, perform (Await (ReplyWith tunnel c)) s)"

text \<open>
  \<^verbatim>\<open>requestDuel\<close>. The body runs only when the interaction is valid, and the promise of
  an \<^verbatim>\<open>async\<close> function whose body ends resolves. The cooldown is
  \<^verbatim>\<open>requestCooldownTime ?? 0\<close>, in seconds.
\<close>

definition requestDuel ::
  "Collaborators \<Rightarrow> MessagingTunnel \<Rightarrow> GuildMember \<Rightarrow> state \<Rightarrow> thrown option promise \<times> state" where
  "requestDuel E tunnel invited s0 =
     (let s1 = perform (Validate IsInteractionValid) s0
      in if isInteractionValid E s0 tunnel then
           (let s2 = perform (Validate IsNewGamePossible) s1
            in if \<not> isNewGamePossible E s0 tunnel (Some invited) then (Rejected None, s2)
               else
                 (case new_DuelRequest tunnel invited
                         (requestExpireTime (configuration E))
                         (requestReactions (configuration E))
                         (embedColor (configuration E)) s2 of
                    (duel, s3) \<Rightarrow>
                      (case await_replyWith E tunnel (DuelContent duel) s3 of
                         (Inl e, s4) \<Rightarrow> (Rejected (Some e), s4)
                       | (Inr msg, s4) \<Rightarrow>
                           (let s5 = perform (Await (DuelAttachTo (duel_ref duel) msg)) s4
                            in case duel_attachTo E duel msg of
                                 Some e \<Rightarrow> (Rejected (Some e), s5)
                               | None \<Rightarrow>
                                   (let cooldown = (case requestCooldownTime (configuration E) of
                                                      None \<Rightarrow> 0 | Some c \<Rightarrow> c)
                                    in if cooldown > 0 then
                                         (let k = user_id (author tunnel);
                                              t = date_now E + cooldown * 1000
                                          in (Resolved,
                                              perform (SetCooldown k t)
                                                (s5\<lparr>memberCooldownEndTimes :=
                                                       (memberCooldownEndTimes s5)(k \<mapsto> t)\<rparr>)))
                                       else (Resolved, s5))))))
         else (Resolved, s1))"

text \<open>
  \<^verbatim>\<open>createGame\<close>. The second participant is \<^verbatim>\<open>invited ?? this.createAI()\<close>. A listener
  of \<^verbatim>\<open>newGame\<close> that throws ends the call before the push. The promise of
  \<^verbatim>\<open>gameboard.attachTo\<close> is returned, so the promise of the call settles as it does.
\<close>

definition createGame ::
  "Collaborators \<Rightarrow> MessagingTunnel \<Rightarrow> GuildMember option \<Rightarrow> state \<Rightarrow> thrown option promise \<times> state" where
  "createGame E tunnel invited s0 =
     (let s1 = perform (Validate IsInteractionValid) s0
      in if isInteractionValid E s0 tunnel then
           (let s2 = perform (Validate IsNewGamePossible) s1
            in if \<not> isNewGamePossible E s0 tunnel invited then (Rejected None, s2)
               else
                 (case (case invited of
                          Some m \<Rightarrow> (Member m, s2)
                        | None \<Rightarrow> (case createAI E s2 of (ai, s) \<Rightarrow> (Computer ai, s))) of
                    (member2, s3) \<Rightarrow>
                      (case new_GameBoard tunnel member2 (configuration E) s3 of
                         (gameboard, s4) \<Rightarrow>
                           (case emitEvent E (NewGame (entities gameboard)) s4 of
                              (Some e, s5) \<Rightarrow> (Rejected (Some e), s5)
                            | (None, s5) \<Rightarrow>
                                (let s6 = perform (Push gameboard)
                                            (s5\<lparr>gameboards := gameboards s5 @ [gameboard]\<rparr>)
                                 in case await_replyWith E tunnel (BoardContent gameboard) s6 of
                                      (Inl e, s7) \<Rightarrow> (Rejected (Some e), s7)
                                    | (Inr msg, s7) \<Rightarrow>
                                        (let s8 = perform (Await (BoardAttachTo (board_ref gameboard) msg)) s7
                                         in case board_attachTo E gameboard msg of
                                              Some e \<Rightarrow> (Rejected (Some e), s8)
                                            | None \<Rightarrow> (Resolved, s8)))))))
         else (Resolved, s1))"

section \<open>GameCommand\<close>

text \<open>
  \<^verbatim>\<open>handleInvitation\<close>: a duel request when a member is invited, a game against the AI
  otherwise; a rejection is turned into the message of its reason, or into
  \<^verbatim>\<open>game.in-progress\<close> when the reason is undefined or has no message.
\<close>

definition handleInvitation ::
  "Collaborators \<Rightarrow> MessagingTunnel \<Rightarrow> GuildMember option \<Rightarrow> state \<Rightarrow> string promise \<times> state" where
  "handleInvitation E tunnel invited s =
     (case (case invited of
              Some m \<Rightarrow> requestDuel E tunnel m s
            | None \<Rightarrow> createGame E tunnel None s) of
        (Resolved, s') \<Rightarrow> (Resolved, s')
      | (Rejected err, s') \<Rightarrow>
          (Rejected (case err of
                       None \<Rightarrow> ''game.in-progress''
                     | Some e \<Rightarrow> (case message e of None \<Rightarrow> ''game.in-progress'' | Some m \<Rightarrow> m)),
           s'))"

definition processInvitation ::
  "Collaborators \<Rightarrow> MessagingTunnel \<Rightarrow> GuildMember \<Rightarrow> GuildMember option \<Rightarrow> state \<Rightarrow> string promise \<times> state" where
  "processInvitation E tunnel inviter invited s =
     (case invited of
        Some guest \<Rightarrow>
          if \<not> user_bot guest then
            if user_id inviter = user_id guest
               \<or> ''ViewChannel'' \<notin> set (permissionsIn E guest (channel tunnel))
            then (Rejected ''duel.unknown-user'', s)
            else handleInvitation E tunnel invited s
          else (Rejected ''duel.no-bot'', s)
      | None \<Rightarrow> handleInvitation E tunnel invited s)"

section \<open>GameStateValidator\<close>

text \<open>
  Modelled from the spec: \<^verbatim>\<open>GameStateValidator.isNewGamePossible\<close> is not under \<^verbatim>\<open>src/\<close>.
  The spec lets it be true only if neither the author of the tunnel nor, when present,
  the invited member participates in an entry of the registry, and asks this for any
  channel: the channel of the tunnel is not looked at.
\<close>

definition participates :: "GuildMember \<Rightarrow> GameBoard \<Rightarrow> bool" where
  "participates m gameboard = (Member m \<in> set (entities gameboard))"

definition validator_isNewGamePossible :: "state \<Rightarrow> MessagingTunnel \<Rightarrow> GuildMember option \<Rightarrow> bool" where
  "validator_isNewGamePossible s tunnel invited =
     (\<not> list_ex (\<lambda>gameboard.
           participates (author tunnel) gameboard
           \<or> (case invited of None \<Rightarrow> False | Some m \<Rightarrow> participates m gameboard))
         (gameboards s))"

section \<open>Reading the trace\<close>

fun is_await :: "action \<Rightarrow> bool" where
  "is_await (Await _) = True"
| "is_await _ = False"

text \<open>The actions that read or change the \<^verbatim>\<open>gameboards\<close> array.\<close>

fun is_registry_access :: "action \<Rightarrow> bool" where
  "is_registry_access (Validate _) = True"
| "is_registry_access (Push _) = True"
| "is_registry_access (Splice _) = True"
| "is_registry_access _ = False"

fun emitted :: "action list \<Rightarrow> event list" where
  "emitted [] = []"
| "emitted (Emit ev # as) = ev # emitted as"
| "emitted (_ # as) = emitted as"

text \<open>The actions of a call: what it added to the trace it started from.\<close>

definition performed :: "state \<Rightarrow> state \<Rightarrow> action list" where
  "performed s s' = drop (length (trace s)) (trace s')"

section \<open>What a call constructs and leaves behind\<close>

text \<open>The level \<^verbatim>\<open>createAI\<close> gives to \<^verbatim>\<open>new AI\<close>.\<close>

definition configured_level :: "Collaborators \<Rightarrow> nat option" where
  "configured_level E =
     (case aiDifficulty (configuration E) of
        None \<Rightarrow> None
      | Some d \<Rightarrow> if d = [] then None else AIDifficultyLevel E d)"

text \<open>The gameboard that \<^verbatim>\<open>createGame\<close> constructs when it is called in state \<open>s\<close>.\<close>

definition constructed_board :: "Collaborators \<Rightarrow> MessagingTunnel \<Rightarrow> GuildMember option \<Rightarrow> state \<Rightarrow> GameBoard" where
  "constructed_board E tunnel invited s =
     (case invited of
        Some m \<Rightarrow> fst (new_GameBoard tunnel (Member m) (configuration E) s)
      | None \<Rightarrow> (case createAI E s of
                   (ai, s') \<Rightarrow> fst (new_GameBoard tunnel (Computer ai) (configuration E) s')))"

text \<open>The duel request that \<^verbatim>\<open>requestDuel\<close> constructs when it is called in state \<open>s\<close>.\<close>

definition constructed_duel :: "Collaborators \<Rightarrow> MessagingTunnel \<Rightarrow> GuildMember \<Rightarrow> state \<Rightarrow> DuelRequest" where
  "constructed_duel E tunnel invited s =
     fst (new_DuelRequest tunnel invited
            (requestExpireTime (configuration E))
            (requestReactions (configuration E))
            (embedColor (configuration E)) s)"

text \<open>The state of \<^verbatim>\<open>createGame\<close> once \<^verbatim>\<open>newGame\<close> is emitted, before the append.\<close>

definition notified :: "Collaborators \<Rightarrow> MessagingTunnel \<Rightarrow> GuildMember option \<Rightarrow> state \<Rightarrow> state" where
  "notified E tunnel invited s =
     s\<lparr>allocated := Suc (board_ref (constructed_board E tunnel invited s)),
       trace := trace s @ [Validate IsInteractionValid, Validate IsNewGamePossible,
                           Emit (NewGame (entities (constructed_board E tunnel invited s)))]\<rparr>"

text \<open>The state of \<^verbatim>\<open>createGame\<close> suspended at \<^verbatim>\<open>await tunnel.replyWith\<close>.\<close>

definition appended :: "Collaborators \<Rightarrow> MessagingTunnel \<Rightarrow> GuildMember option \<Rightarrow> state \<Rightarrow> state" where
  "appended E tunnel invited s =
     s\<lparr>gameboards := gameboards s @ [constructed_board E tunnel invited s],
       allocated := Suc (board_ref (constructed_board E tunnel invited s)),
       trace := trace s @ [Validate IsInteractionValid, Validate IsNewGamePossible,
                           Emit (NewGame (entities (constructed_board E tunnel invited s))),
                           Push (constructed_board E tunnel invited s),
                           Await (ReplyWith tunnel (BoardContent (constructed_board E tunnel invited s)))]\<rparr>"

text \<open>The state of \<^verbatim>\<open>requestDuel\<close> suspended at \<^verbatim>\<open>await tunnel.replyWith\<close>.\<close>

definition replied :: "Collaborators \<Rightarrow> MessagingTunnel \<Rightarrow> GuildMember \<Rightarrow> state \<Rightarrow> state" where
  "replied E tunnel invited s =
     s\<lparr>allocated := Suc (allocated s),
       trace := trace s @ [Validate IsInteractionValid, Validate IsNewGamePossible,
                           Await (ReplyWith tunnel (DuelContent (constructed_duel E tunnel invited s)))]\<rparr>"

section \<open>A concrete guild\<close>

definition alice :: GuildMember where
  "alice = \<lparr>user_id = ''1001'', user_bot = False\<rparr>"

definition bob :: GuildMember where
  "bob = \<lparr>user_id = ''1002'', user_bot = False\<rparr>"

definition carol :: GuildMember where
  "carol = \<lparr>user_id = ''1003'', user_bot = False\<rparr>"


definition musicbot :: GuildMember where
  "musicbot = \<lparr>user_id = ''9001'', user_bot = True\<rparr>"

definition lobby :: MessagingTunnel where
  "lobby = \<lparr>author = alice, channel = 7\<rparr>"

definition settings :: Config where
  "settings = \<lparr>requestExpireTime = Some 60, requestReactions = Some True, embedColor = None,
               requestCooldownTime = Some 30, aiDifficulty = Some ''Hard''\<rparr>"

text \<open>
  Collaborators that accept everything: the interaction is valid, nobody vetoes, every
  message is sent and attached. The game of a playing member is refused.
\<close>

definition calm :: Collaborators where
  "calm = \<lparr>isInteractionValid = (\<lambda>s t. True),
           isNewGamePossible = validator_isNewGamePossible,
           listeners = (\<lambda>ev. None),
           replyWith = (\<lambda>t c. Inr 500),
           duel_attachTo = (\<lambda>d m. None),
           board_attachTo = (\<lambda>g m. None),
           date_now = 1700000000000,
           permissionsIn = (\<lambda>m c. if m = carol then [] else [''ViewChannel'', ''SendMessages'']),
           AIDifficultyLevel = (\<lambda>d. if d = ''Hard'' then Some 2 else None),
           configuration = settings\<rparr>"

text \<open>The interaction is no longer valid.\<close>

definition stale :: Collaborators where
  "stale = calm\<lparr>isInteractionValid := (\<lambda>s t. False)\<rparr>"

text \<open>A listener of \<^verbatim>\<open>newGame\<close> throws an error with a message.\<close>

definition vetoing :: Collaborators where
  "vetoing = calm\<lparr>listeners := (\<lambda>ev. case ev of
                                     NewGame players \<Rightarrow> Some (Thrown (Some ''game.forbidden''))
                                   | _ \<Rightarrow> None)\<rparr>"

text \<open>The reply cannot be sent.\<close>

definition unreachable :: Collaborators where
  "unreachable = calm\<lparr>replyWith := (\<lambda>t c. Inl (Thrown (Some ''Missing Access'')))\<rparr>"

text \<open>A listener of \<^verbatim>\<open>win\<close> and of \<^verbatim>\<open>tie\<close> throws.\<close>

definition sore :: Collaborators where
  "sore = calm\<lparr>listeners := (\<lambda>ev. case ev of
                                  NewGame players \<Rightarrow> None
                                | Win w l \<Rightarrow> Some (Thrown (Some ''scoreboard offline''))
                                | Tie players \<Rightarrow> Some (Thrown (Some ''scoreboard offline'')))\<rparr>"

definition board_ab :: GameBoard where
  "board_ab = \<lparr>board_ref = 0, board_tunnel = lobby,
               entities = [Member alice, Member bob], board_config = settings\<rparr>"


definition idle :: state where
  "idle = \<lparr>gameboards = [], memberCooldownEndTimes = Map.empty, allocated = 0, trace = []\<rparr>"

definition one_game :: state where
  "one_game = \<lparr>gameboards = [board_ab], memberCooldownEndTimes = Map.empty, allocated = 2, trace = []\<rparr>"

section \<open>Facts about the array operations\<close>


lemma indexOf_present: "x \<in> set xs \<Longrightarrow> 0 \<le> indexOf xs x \<and> indexOf xs x < int (length xs)"
  by (induction xs) (auto simp: Let_def)

lemma splice_indexOf_present: "x \<in> set xs \<Longrightarrow> splice_js (indexOf xs x) 1 xs = remove1 x xs"
proof (induction xs)
  case Nil
  then show ?case by simp
next
  case (Cons y ys)
  show ?case
  proof (cases "y = x")
    case True
    then show ?thesis by (simp add: splice_js_def)
  next
    case False
    with Cons.prems have mem: "x \<in> set ys" by simp
    from indexOf_present [OF mem] have bounds: "0 \<le> indexOf ys x" "indexOf ys x < int (length ys)"
      by simp_all
    from Cons.IH [OF mem] bounds have "take (nat (indexOf ys x)) ys @ drop (nat (indexOf ys x) + 1) ys = remove1 x ys"
      by (simp add: splice_js_def Let_def min_def)
    with False bounds show ?thesis
      by (simp add: splice_js_def Let_def min_def nat_add_distrib)
  qed
qed


section \<open>Facts about lists\<close>

lemma count_list_remove1: "x \<in> set xs \<Longrightarrow> count_list (remove1 x xs) x = count_list xs x - 1"
  by (induction xs) auto

lemma length_remove1_present: "x \<in> set xs \<Longrightarrow> length (remove1 x xs) = length xs - 1"
  by (simp add: length_remove1)

section \<open>The paths of createGame\<close>

lemma createAI_eq:
  "createAI E s =
     (\<lparr>ai_ref = allocated s, ai_level = configured_level E\<rparr>, s\<lparr>allocated := Suc (allocated s)\<rparr>)"
  by (simp add: createAI_def configured_level_def Let_def)

lemma entities_constructed_board:
  "entities (constructed_board E tunnel invited s) =
     [Member (author tunnel),
      case invited of
        Some m \<Rightarrow> Member m
      | None \<Rightarrow> Computer \<lparr>ai_ref = allocated s, ai_level = configured_level E\<rparr>]"
  by (simp add: constructed_board_def new_GameBoard_def createAI_eq split: option.splits)

lemma createGame_invalid:
  "\<not> isInteractionValid E s tunnel \<Longrightarrow>
     createGame E tunnel invited s = (Resolved, perform (Validate IsInteractionValid) s)"
  by (simp add: createGame_def Let_def)

lemma createGame_impossible:
  "isInteractionValid E s tunnel \<Longrightarrow> \<not> isNewGamePossible E s tunnel invited \<Longrightarrow>
     createGame E tunnel invited s =
       (Rejected None, perform (Validate IsNewGamePossible) (perform (Validate IsInteractionValid) s))"
  by (simp add: createGame_def Let_def)

lemma createGame_vetoed:
  assumes "isInteractionValid E s tunnel" and "isNewGamePossible E s tunnel invited"
    and "listeners E (NewGame (entities (constructed_board E tunnel invited s))) = Some e"
  shows "createGame E tunnel invited s = (Rejected (Some e), notified E tunnel invited s)"
  using assms
  by (cases invited)
     (simp_all add: createGame_def Let_def constructed_board_def new_GameBoard_def createAI_eq
        emitEvent_def perform_def notified_def)

lemma createGame_reply_rejected:
  assumes "isInteractionValid E s tunnel" and "isNewGamePossible E s tunnel invited"
    and "listeners E (NewGame (entities (constructed_board E tunnel invited s))) = None"
    and "replyWith E tunnel (BoardContent (constructed_board E tunnel invited s)) = Inl e"
  shows "createGame E tunnel invited s = (Rejected (Some e), appended E tunnel invited s)"
  using assms
  by (cases invited)
     (simp_all add: createGame_def Let_def constructed_board_def new_GameBoard_def createAI_eq
        emitEvent_def await_replyWith_def perform_def appended_def)

lemma createGame_attached:
  assumes "isInteractionValid E s tunnel" and "isNewGamePossible E s tunnel invited"
    and "listeners E (NewGame (entities (constructed_board E tunnel invited s))) = None"
    and "replyWith E tunnel (BoardContent (constructed_board E tunnel invited s)) = Inr msg"
  shows "createGame E tunnel invited s =
           (case board_attachTo E (constructed_board E tunnel invited s) msg of
              Some e \<Rightarrow> Rejected (Some e) | None \<Rightarrow> Resolved,
            perform (Await (BoardAttachTo (board_ref (constructed_board E tunnel invited s)) msg))
              (appended E tunnel invited s))"
  using assms
  by (cases invited)
     (simp_all add: createGame_def Let_def constructed_board_def new_GameBoard_def createAI_eq
        emitEvent_def await_replyWith_def perform_def appended_def split: option.splits)

section \<open>The paths of requestDuel\<close>

lemma requestDuel_invalid:
  "\<not> isInteractionValid E s tunnel \<Longrightarrow>
     requestDuel E tunnel invited s = (Resolved, perform (Validate IsInteractionValid) s)"
  by (simp add: requestDuel_def Let_def)

lemma requestDuel_impossible:
  "isInteractionValid E s tunnel \<Longrightarrow> \<not> isNewGamePossible E s tunnel (Some invited) \<Longrightarrow>
     requestDuel E tunnel invited s =
       (Rejected None, perform (Validate IsNewGamePossible) (perform (Validate IsInteractionValid) s))"
  by (simp add: requestDuel_def Let_def)

lemma requestDuel_reply_rejected:
  assumes "isInteractionValid E s tunnel" and "isNewGamePossible E s tunnel (Some invited)"
    and "replyWith E tunnel (DuelContent (constructed_duel E tunnel invited s)) = Inl e"
  shows "requestDuel E tunnel invited s = (Rejected (Some e), replied E tunnel invited s)"
  using assms
  by (simp add: requestDuel_def Let_def constructed_duel_def new_DuelRequest_def
        await_replyWith_def perform_def replied_def)

lemma requestDuel_attach_rejected:
  assumes "isInteractionValid E s tunnel" and "isNewGamePossible E s tunnel (Some invited)"
    and "replyWith E tunnel (DuelContent (constructed_duel E tunnel invited s)) = Inr msg"
    and "duel_attachTo E (constructed_duel E tunnel invited s) msg = Some e"
  shows "requestDuel E tunnel invited s =
           (Rejected (Some e),
            perform (Await (DuelAttachTo (duel_ref (constructed_duel E tunnel invited s)) msg))
              (replied E tunnel invited s))"
  using assms
  by (simp add: requestDuel_def Let_def constructed_duel_def new_DuelRequest_def
        await_replyWith_def perform_def replied_def)

lemma requestDuel_attached:
  assumes "isInteractionValid E s tunnel" and "isNewGamePossible E s tunnel (Some invited)"
    and "replyWith E tunnel (DuelContent (constructed_duel E tunnel invited s)) = Inr msg"
    and "duel_attachTo E (constructed_duel E tunnel invited s) msg = None"
  shows "requestDuel E tunnel invited s =
           (Resolved,
            (let cooldown = (case requestCooldownTime (configuration E) of None \<Rightarrow> 0 | Some c \<Rightarrow> c);
                 attached = perform (Await (DuelAttachTo (duel_ref (constructed_duel E tunnel invited s)) msg))
                              (replied E tunnel invited s)
             in if cooldown > 0
                then perform (SetCooldown (user_id (author tunnel)) (date_now E + cooldown * 1000))
                       (attached\<lparr>memberCooldownEndTimes :=
                          (memberCooldownEndTimes s)(user_id (author tunnel) \<mapsto> date_now E + cooldown * 1000)\<rparr>)
                else attached))"
  using assms
  by (simp add: requestDuel_def Let_def constructed_duel_def new_DuelRequest_def
        await_replyWith_def perform_def replied_def)

section \<open>endGame\<close>

text \<open>
  Claim C1, as amended. For every gameboard of the registry whose two entities are
  \<open>e1\<close> and \<open>e2\<close>, and provided the listeners of the emitted notification return:
  \<^verbatim>\<open>endGame(gameboard, w)\<close> with \<open>w\<close> one of the two entities emits exactly one
  \<^verbatim>\<open>win\<close> notification whose winner is \<open>w\<close> and whose loser is the other entity
  (undefined when the gameboard holds the same object twice, there being no other);
  \<^verbatim>\<open>endGame(gameboard, null)\<close> emits exactly one \<^verbatim>\<open>tie\<close> notification with both
  entities; \<^verbatim>\<open>endGame(gameboard)\<close> emits nothing; in the three cases one occurrence of
  the gameboard, the first, is removed from the registry and nothing else of the state
  changes. A listener that throws is the subject of the counterexample below; what
  \<^verbatim>\<open>endGame\<close> does with a gameboard that is not in the registry is left out here.
\<close>

theorem endGame_registered:
  assumes registered: "gameboard \<in> set (gameboards s)"
    and two: "entities gameboard = [e1, e2]"
  shows "(listeners E (Win e1 (if e2 = e1 then None else Some e2)) = None \<longrightarrow>
            endGame E gameboard (Winner e1) s =
              (None, s\<lparr>gameboards := remove1 gameboard (gameboards s),
                        trace := trace s @ [Emit (Win e1 (if e2 = e1 then None else Some e2)),
                                           Splice (indexOf (gameboards s) gameboard)]\<rparr>))
       \<and> (listeners E (Win e2 (if e1 = e2 then None else Some e1)) = None \<longrightarrow>
            endGame E gameboard (Winner e2) s =
              (None, s\<lparr>gameboards := remove1 gameboard (gameboards s),
                        trace := trace s @ [Emit (Win e2 (if e1 = e2 then None else Some e1)),
                                           Splice (indexOf (gameboards s) gameboard)]\<rparr>))
       \<and> (listeners E (Tie [e1, e2]) = None \<longrightarrow>
            endGame E gameboard Null s =
              (None, s\<lparr>gameboards := remove1 gameboard (gameboards s),
                        trace := trace s @ [Emit (Tie [e1, e2]),
                                           Splice (indexOf (gameboards s) gameboard)]\<rparr>))
       \<and> endGame E gameboard Undefined s =
              (None, s\<lparr>gameboards := remove1 gameboard (gameboards s),
                        trace := trace s @ [Splice (indexOf (gameboards s) gameboard)]\<rparr>)
       \<and> length (remove1 gameboard (gameboards s)) = length (gameboards s) - 1
       \<and> count_list (remove1 gameboard (gameboards s)) gameboard
           = count_list (gameboards s) gameboard - 1"
proof -
  have cut: "splice_js (indexOf (gameboards s) gameboard) 1 (gameboards s)
               = remove1 gameboard (gameboards s)"
    using registered by (rule splice_indexOf_present)
  have first: "endGame E gameboard (Winner e1) s =
              (None, s\<lparr>gameboards := remove1 gameboard (gameboards s),
                        trace := trace s @ [Emit (Win e1 (if e2 = e1 then None else Some e2)),
                                           Splice (indexOf (gameboards s) gameboard)]\<rparr>)"
    if "listeners E (Win e1 (if e2 = e1 then None else Some e2)) = None"
    using that two cut
    by (auto simp add: endGame_def emitEvent_def perform_def Let_def simp del: One_nat_def)
  have second: "endGame E gameboard (Winner e2) s =
              (None, s\<lparr>gameboards := remove1 gameboard (gameboards s),
                        trace := trace s @ [Emit (Win e2 (if e1 = e2 then None else Some e1)),
                                           Splice (indexOf (gameboards s) gameboard)]\<rparr>)"
    if "listeners E (Win e2 (if e1 = e2 then None else Some e1)) = None"
    using that two cut
    by (auto simp add: endGame_def emitEvent_def perform_def Let_def simp del: One_nat_def)
  have tie: "endGame E gameboard Null s =
              (None, s\<lparr>gameboards := remove1 gameboard (gameboards s),
                        trace := trace s @ [Emit (Tie [e1, e2]),
                                           Splice (indexOf (gameboards s) gameboard)]\<rparr>)"
    if "listeners E (Tie [e1, e2]) = None"
    using that two cut
    by (simp add: endGame_def emitEvent_def perform_def Let_def del: One_nat_def)
  have expired: "endGame E gameboard Undefined s =
              (None, s\<lparr>gameboards := remove1 gameboard (gameboards s),
                        trace := trace s @ [Splice (indexOf (gameboards s) gameboard)]\<rparr>)"
    using cut by (simp add: endGame_def perform_def Let_def del: One_nat_def)
  from first second tie expired registered show ?thesis
    by (simp only: length_remove1_present count_list_remove1) blast
qed

text \<open>
  Alice and Bob play the only game of the registry. Bob wins, Alice wins, they tie, or
  the game expires: the registry is empty afterwards.
\<close>

theorem endGame_registered_witness:
  "board_ab \<in> set (gameboards one_game)
   \<and> entities board_ab = [Member alice, Member bob]
   \<and> endGame calm board_ab (Winner (Member bob)) one_game =
       (None, one_game\<lparr>gameboards := [],
                        trace := [Emit (Win (Member bob) (Some (Member alice))), Splice 0]\<rparr>)
   \<and> endGame calm board_ab (Winner (Member alice)) one_game =
       (None, one_game\<lparr>gameboards := [],
                        trace := [Emit (Win (Member alice) (Some (Member bob))), Splice 0]\<rparr>)
   \<and> endGame calm board_ab Null one_game =
       (None, one_game\<lparr>gameboards := [],
                        trace := [Emit (Tie [Member alice, Member bob]), Splice 0]\<rparr>)
   \<and> endGame calm board_ab Undefined one_game =
       (None, one_game\<lparr>gameboards := [], trace := [Splice 0]\<rparr>)"
proof -
  have registered: "board_ab \<in> set (gameboards one_game)"
    by (simp add: one_game_def)
  have two: "entities board_ab = [Member alice, Member bob]"
    by (simp add: board_ab_def)
  have other: "Member alice \<noteq> Member bob" "Member bob \<noteq> Member alice"
    by (simp_all add: alice_def bob_def)
  have quiet: "listeners calm ev = None" for ev
    by (simp add: calm_def)
  have at_start: "trace one_game = []" "gameboards one_game = [board_ab]"
    by (simp_all add: one_game_def)
  from endGame_registered [OF registered two, of calm]
  have "endGame calm board_ab (Winner (Member bob)) one_game =
          (None, one_game\<lparr>gameboards := remove1 board_ab (gameboards one_game),
                trace := trace one_game @ [Emit (Win (Member bob) (Some (Member alice))),
                                           Splice (indexOf (gameboards one_game) board_ab)]\<rparr>)"
    and "endGame calm board_ab (Winner (Member alice)) one_game =
          (None, one_game\<lparr>gameboards := remove1 board_ab (gameboards one_game),
                trace := trace one_game @ [Emit (Win (Member alice) (Some (Member bob))),
                                           Splice (indexOf (gameboards one_game) board_ab)]\<rparr>)"
    and "endGame calm board_ab Null one_game =
          (None, one_game\<lparr>gameboards := remove1 board_ab (gameboards one_game),
                trace := trace one_game @ [Emit (Tie [Member alice, Member bob]),
                                           Splice (indexOf (gameboards one_game) board_ab)]\<rparr>)"
    and "endGame calm board_ab Undefined one_game =
          (None, one_game\<lparr>gameboards := remove1 board_ab (gameboards one_game),
                trace := trace one_game @ [Splice (indexOf (gameboards one_game) board_ab)]\<rparr>)"
    using quiet other by (simp_all only: if_False simp_thms)
  with registered two show ?thesis
    by (simp add: at_start)
qed

text \<open>
  Claim C1 as stated fails when a listener of the notification throws. Alice and Bob
  play the only game of the registry and Bob wins: the \<^verbatim>\<open>win\<close> notification is
  emitted, its listener throws, the exception leaves \<^verbatim>\<open>endGame\<close> before the
  \<^verbatim>\<open>splice\<close>, and the gameboard is still in the registry.
\<close>

theorem endGame_throwing_listener_counterexample:
  "board_ab \<in> set (gameboards one_game)
   \<and> entities board_ab = [Member alice, Member bob]
   \<and> endGame sore board_ab (Winner (Member bob)) one_game =
       (Some (Thrown (Some ''scoreboard offline'')),
        one_game\<lparr>trace := [Emit (Win (Member bob) (Some (Member alice)))]\<rparr>)
   \<and> board_ab \<in> set (gameboards (snd (endGame sore board_ab (Winner (Member bob)) one_game)))"
  by (simp add: endGame_def emitEvent_def perform_def Let_def
      one_game_def board_ab_def sore_def alice_def bob_def)




section \<open>createGame\<close>

text \<open>
  Claim C2, as amended. For every tunnel and optional invited member such that
  \<^verbatim>\<open>createGame\<close> passes the \<^verbatim>\<open>isInteractionValid\<close> gate and resolves, the registry grows
  by exactly one entry, appended at its end, whose entities are the author of the tunnel
  and either the invited member or a newly constructed AI whose level is looked up from
  the configured \<^verbatim>\<open>aiDifficulty\<close> and left to the default of the constructor when that is
  unset or empty. The AI carries the next unused object reference, so it is none of the
  entities already in the registry when those come from earlier allocations.
\<close>

theorem createGame_registers:
  assumes valid: "isInteractionValid E s tunnel"
    and resolved: "fst (createGame E tunnel invited s) = Resolved"
  shows "length (gameboards (snd (createGame E tunnel invited s))) = Suc (length (gameboards s))
       \<and> gameboards (snd (createGame E tunnel invited s))
           = gameboards s @ [last (gameboards (snd (createGame E tunnel invited s)))]
       \<and> entities (last (gameboards (snd (createGame E tunnel invited s)))) =
           [Member (author tunnel),
            case invited of
              Some m \<Rightarrow> Member m
            | None \<Rightarrow> Computer \<lparr>ai_ref = allocated s,
                                 ai_level = (case aiDifficulty (configuration E) of
                                               None \<Rightarrow> None
                                             | Some d \<Rightarrow> if d = [] then None
                                                         else AIDifficultyLevel E d)\<rparr>]
       \<and> (invited = None
            \<and> (\<forall>g \<in> set (gameboards s). \<forall>ai. Computer ai \<in> set (entities g) \<longrightarrow> ai_ref ai < allocated s)
            \<longrightarrow> (\<forall>g \<in> set (gameboards s).
                   last (entities (last (gameboards (snd (createGame E tunnel invited s)))))
                     \<notin> set (entities g)))"
proof -
  let ?gb = "constructed_board E tunnel invited s"
  have possible: "isNewGamePossible E s tunnel invited"
  proof (rule ccontr)
    assume "\<not> isNewGamePossible E s tunnel invited"
    with valid have "fst (createGame E tunnel invited s) = Rejected None"
      by (simp add: createGame_impossible)
    with resolved show False by simp
  qed
  have quiet: "listeners E (NewGame (entities ?gb)) = None"
  proof (cases "listeners E (NewGame (entities ?gb))")
    case None
    then show ?thesis .
  next
    case (Some e)
    with valid possible resolved show ?thesis by (simp add: createGame_vetoed)
  qed
  obtain msg where sent: "replyWith E tunnel (BoardContent ?gb) = Inr msg"
  proof (cases "replyWith E tunnel (BoardContent ?gb)")
    case (Inl e)
    with valid possible quiet resolved show ?thesis by (simp add: createGame_reply_rejected)
  next
    case (Inr msg)
    with that show ?thesis .
  qed
  have boards: "gameboards (snd (createGame E tunnel invited s)) = gameboards s @ [?gb]"
    using valid possible quiet sent
    by (simp add: createGame_attached perform_def appended_def)
  have ents: "entities ?gb =
           [Member (author tunnel),
            case invited of
              Some m \<Rightarrow> Member m
            | None \<Rightarrow> Computer \<lparr>ai_ref = allocated s, ai_level = configured_level E\<rparr>]"
    by (rule entities_constructed_board)
  have fresh: "last (entities ?gb) \<notin> set (entities g)"
    if "invited = None" and "g \<in> set (gameboards s)"
      and "\<forall>g \<in> set (gameboards s). \<forall>ai. Computer ai \<in> set (entities g) \<longrightarrow> ai_ref ai < allocated s"
    for g
  proof
    assume "last (entities ?gb) \<in> set (entities g)"
    with that(1) ents
    have "Computer \<lparr>ai_ref = allocated s, ai_level = configured_level E\<rparr> \<in> set (entities g)"
      by simp
    with that(2,3) have "ai_ref \<lparr>ai_ref = allocated s, ai_level = configured_level E\<rparr> < allocated s"
      by blast
    then show False by simp
  qed
  have newest: "last (gameboards (snd (createGame E tunnel invited s))) = ?gb"
    using boards by simp
  have grown: "length (gameboards (snd (createGame E tunnel invited s))) = Suc (length (gameboards s))"
    using boards by simp
  have at_end: "gameboards (snd (createGame E tunnel invited s))
           = gameboards s @ [last (gameboards (snd (createGame E tunnel invited s)))]"
    using boards by simp
  have players: "entities (last (gameboards (snd (createGame E tunnel invited s)))) =
           [Member (author tunnel),
            case invited of
              Some m \<Rightarrow> Member m
            | None \<Rightarrow> Computer \<lparr>ai_ref = allocated s,
                                 ai_level = (case aiDifficulty (configuration E) of
                                               None \<Rightarrow> None
                                             | Some d \<Rightarrow> if d = [] then None
                                                         else AIDifficultyLevel E d)\<rparr>]"
    using ents by (simp only: newest configured_level_def)
  have unused: "invited = None
            \<and> (\<forall>g \<in> set (gameboards s). \<forall>ai. Computer ai \<in> set (entities g) \<longrightarrow> ai_ref ai < allocated s)
            \<longrightarrow> (\<forall>g \<in> set (gameboards s).
                   last (entities (last (gameboards (snd (createGame E tunnel invited s)))))
                     \<notin> set (entities g))"
    using fresh by (simp only: newest) blast
  from grown at_end players unused show ?thesis
    by (intro conjI)
qed

text \<open>
  Alice starts a game with no opponent while she and Bob play; the validator in use looks
  only at the interaction. The new board holds Alice and an AI at the level of ``Hard''.
\<close>

theorem createGame_registers_witness:
  "isInteractionValid (calm\<lparr>isNewGamePossible := (\<lambda>s t i. True)\<rparr>) one_game lobby
   \<and> fst (createGame (calm\<lparr>isNewGamePossible := (\<lambda>s t i. True)\<rparr>) lobby None one_game) = Resolved
   \<and> length (gameboards (snd (createGame (calm\<lparr>isNewGamePossible := (\<lambda>s t i. True)\<rparr>) lobby None one_game))) = 2
   \<and> entities (last (gameboards (snd (createGame (calm\<lparr>isNewGamePossible := (\<lambda>s t i. True)\<rparr>) lobby None one_game))))
       = [Member alice, Computer \<lparr>ai_ref = 2, ai_level = Some 2\<rparr>]
   \<and> Computer \<lparr>ai_ref = 2, ai_level = Some 2\<rparr> \<notin> set (entities board_ab)"
proof -
  let ?E = "calm\<lparr>isNewGamePossible := (\<lambda>s t i. True)\<rparr>"
  have valid: "isInteractionValid ?E one_game lobby"
    by (simp add: calm_def)
  have resolved: "fst (createGame ?E lobby None one_game) = Resolved"
    by (simp add: createGame_def createAI_def new_GameBoard_def emitEvent_def await_replyWith_def
        perform_def Let_def calm_def)
  have old: "\<forall>g \<in> set (gameboards one_game). \<forall>ai. Computer ai \<in> set (entities g) \<longrightarrow> ai_ref ai < allocated one_game"
    by (simp add: one_game_def board_ab_def)
  from createGame_registers [OF valid resolved] old valid resolved show ?thesis
    by (simp add: one_game_def calm_def settings_def lobby_def board_ab_def)
qed

text \<open>
  Claim C2 as stated fails when the interaction is not valid: the call resolves and
  registers nothing.
\<close>

theorem createGame_stale_counterexample:
  "fst (createGame stale lobby None idle) = Resolved
   \<and> gameboards (snd (createGame stale lobby None idle)) = gameboards idle
   \<and> length (gameboards (snd (createGame stale lobby None idle))) \<noteq> Suc (length (gameboards idle))"
  by (simp add: createGame_def perform_def Let_def stale_def calm_def idle_def)

text \<open>
  Claim C3. For every call of \<^verbatim>\<open>createGame\<close> in which the \<^verbatim>\<open>newGame\<close> notification is
  emitted and a listener of it throws, the promise is rejected with the thrown error and
  the registry (and the cooldown map) is as before the call; through the command, the
  rejection carries the message of the error, or \<^verbatim>\<open>game.in-progress\<close> when the error has
  no message.
\<close>

theorem createGame_veto:
  assumes notified: "NewGame players \<in> set (emitted (performed s (snd (createGame E tunnel invited s))))"
    and throws: "listeners E (NewGame players) = Some e"
  shows "fst (createGame E tunnel invited s) = Rejected (Some e)
       \<and> gameboards (snd (createGame E tunnel invited s)) = gameboards s
       \<and> memberCooldownEndTimes (snd (createGame E tunnel invited s)) = memberCooldownEndTimes s
       \<and> (invited = None \<longrightarrow>
            fst (handleInvitation E tunnel invited s) =
              Rejected (case message e of None \<Rightarrow> ''game.in-progress'' | Some m \<Rightarrow> m)
            \<and> gameboards (snd (handleInvitation E tunnel invited s)) = gameboards s)"
proof -
  let ?gb = "constructed_board E tunnel invited s"
  have valid: "isInteractionValid E s tunnel"
  proof (rule ccontr)
    assume "\<not> isInteractionValid E s tunnel"
    then have "performed s (snd (createGame E tunnel invited s)) = [Validate IsInteractionValid]"
      by (simp add: createGame_invalid perform_def performed_def)
    with notified show False by simp
  qed
  have possible: "isNewGamePossible E s tunnel invited"
  proof (rule ccontr)
    assume "\<not> isNewGamePossible E s tunnel invited"
    with valid have "performed s (snd (createGame E tunnel invited s))
        = [Validate IsInteractionValid, Validate IsNewGamePossible]"
      by (simp add: createGame_impossible perform_def performed_def)
    with notified show False by simp
  qed
  have players: "players = entities ?gb"
  proof (cases "listeners E (NewGame (entities ?gb))")
    case (Some e')
    with valid possible notified show ?thesis
      by (simp add: createGame_vetoed notified_def performed_def)
  next
    case quiet: None
    show ?thesis
    proof (cases "replyWith E tunnel (BoardContent ?gb)")
      case (Inl e')
      with valid possible quiet notified show ?thesis
        by (simp add: createGame_reply_rejected appended_def performed_def)
    next
      case (Inr msg)
      with valid possible quiet notified show ?thesis
        by (simp add: createGame_attached appended_def performed_def perform_def)
    qed
  qed
  with throws have veto: "listeners E (NewGame (entities ?gb)) = Some e"
    by simp
  have result: "createGame E tunnel invited s = (Rejected (Some e), notified E tunnel invited s)"
    using valid possible veto by (rule createGame_vetoed)
  have command: "fst (handleInvitation E tunnel invited s) =
              Rejected (case message e of None \<Rightarrow> ''game.in-progress'' | Some m \<Rightarrow> m)
            \<and> gameboards (snd (handleInvitation E tunnel invited s)) = gameboards s"
    if "invited = None"
  proof -
    from result that have "createGame E tunnel None s = (Rejected (Some e), notified E tunnel None s)"
      by simp
    with that show ?thesis
      by (simp add: handleInvitation_def notified_def)
  qed
  from result command show ?thesis
    by (simp add: notified_def)
qed

text \<open>
  A listener vetoes the game of Alice against the AI with an error whose message is
  \<^verbatim>\<open>game.forbidden\<close>.
\<close>

theorem createGame_veto_witness:
  "NewGame [Member alice, Computer \<lparr>ai_ref = 0, ai_level = Some 2\<rparr>]
     \<in> set (emitted (performed idle (snd (createGame vetoing lobby None idle))))
   \<and> listeners vetoing (NewGame [Member alice, Computer \<lparr>ai_ref = 0, ai_level = Some 2\<rparr>])
       = Some (Thrown (Some ''game.forbidden''))
   \<and> fst (createGame vetoing lobby None idle) = Rejected (Some (Thrown (Some ''game.forbidden'')))
   \<and> gameboards (snd (createGame vetoing lobby None idle)) = []
   \<and> fst (handleInvitation vetoing lobby None idle) = Rejected ''game.forbidden''"
proof -
  let ?players = "[Member alice, Computer \<lparr>ai_ref = 0, ai_level = Some 2\<rparr>]"
  have notified: "NewGame ?players \<in> set (emitted (performed idle (snd (createGame vetoing lobby None idle))))"
    by (simp add: createGame_def createAI_def new_GameBoard_def emitEvent_def perform_def
        performed_def Let_def vetoing_def calm_def validator_isNewGamePossible_def idle_def
        settings_def lobby_def)
  have throws: "listeners vetoing (NewGame ?players) = Some (Thrown (Some ''game.forbidden''))"
    by (simp add: vetoing_def)
  from createGame_veto [OF notified throws] notified throws show ?thesis
    by (simp add: idle_def)
qed

text \<open>
  Claim C10. In \<^verbatim>\<open>createGame\<close> the append to the registry comes before the awaited
  \<^verbatim>\<open>replyWith\<close>. For every call in which the \<^verbatim>\<open>newGame\<close> notification returns and then
  \<^verbatim>\<open>replyWith\<close> or \<^verbatim>\<open>attachTo\<close> rejects, the promise is rejected and the new gameboard
  stays in the registry; the registry is unchanged only by the failures before the
  append (a refused game, a veto).
\<close>

theorem createGame_reply_failure_keeps_board:
  "(isInteractionValid E s tunnel \<and> isNewGamePossible E s tunnel invited
      \<and> listeners E (NewGame (entities (constructed_board E tunnel invited s))) = None
      \<and> (replyWith E tunnel (BoardContent (constructed_board E tunnel invited s)) = Inl e
         \<or> (\<exists>msg. replyWith E tunnel (BoardContent (constructed_board E tunnel invited s)) = Inr msg
                  \<and> board_attachTo E (constructed_board E tunnel invited s) msg = Some e))
    \<longrightarrow> fst (createGame E tunnel invited s) = Rejected (Some e)
        \<and> gameboards (snd (createGame E tunnel invited s))
            = gameboards s @ [constructed_board E tunnel invited s]
        \<and> constructed_board E tunnel invited s \<in> set (gameboards (snd (createGame E tunnel invited s)))
        \<and> take 5 (performed s (snd (createGame E tunnel invited s))) =
            [Validate IsInteractionValid, Validate IsNewGamePossible,
             Emit (NewGame (entities (constructed_board E tunnel invited s))),
             Push (constructed_board E tunnel invited s),
             Await (ReplyWith tunnel (BoardContent (constructed_board E tunnel invited s)))])
   \<and> (isInteractionValid E s tunnel
      \<and> (\<not> isNewGamePossible E s tunnel invited
         \<or> listeners E (NewGame (entities (constructed_board E tunnel invited s))) \<noteq> None)
    \<longrightarrow> fst (createGame E tunnel invited s) \<noteq> Resolved
        \<and> gameboards (snd (createGame E tunnel invited s)) = gameboards s)"
proof -
  let ?gb = "constructed_board E tunnel invited s"
  have late: "fst (createGame E tunnel invited s) = Rejected (Some e)
        \<and> gameboards (snd (createGame E tunnel invited s)) = gameboards s @ [?gb]
        \<and> ?gb \<in> set (gameboards (snd (createGame E tunnel invited s)))
        \<and> take 5 (performed s (snd (createGame E tunnel invited s))) =
            [Validate IsInteractionValid, Validate IsNewGamePossible,
             Emit (NewGame (entities ?gb)), Push ?gb, Await (ReplyWith tunnel (BoardContent ?gb))]"
    if valid: "isInteractionValid E s tunnel" and possible: "isNewGamePossible E s tunnel invited"
      and quiet: "listeners E (NewGame (entities ?gb)) = None"
      and fails: "replyWith E tunnel (BoardContent ?gb) = Inl e
         \<or> (\<exists>msg. replyWith E tunnel (BoardContent ?gb) = Inr msg \<and> board_attachTo E ?gb msg = Some e)"
  proof -
    from fails show ?thesis
    proof
      assume "replyWith E tunnel (BoardContent ?gb) = Inl e"
      with valid possible quiet show ?thesis
        by (simp add: createGame_reply_rejected appended_def performed_def)
    next
      assume "\<exists>msg. replyWith E tunnel (BoardContent ?gb) = Inr msg \<and> board_attachTo E ?gb msg = Some e"
      then obtain msg where "replyWith E tunnel (BoardContent ?gb) = Inr msg"
        and "board_attachTo E ?gb msg = Some e" by blast
      with valid possible quiet show ?thesis
        by (simp add: createGame_attached appended_def performed_def perform_def)
    qed
  qed
  have early: "fst (createGame E tunnel invited s) \<noteq> Resolved
        \<and> gameboards (snd (createGame E tunnel invited s)) = gameboards s"
    if valid: "isInteractionValid E s tunnel"
      and fails: "\<not> isNewGamePossible E s tunnel invited \<or> listeners E (NewGame (entities ?gb)) \<noteq> None"
  proof (cases "isNewGamePossible E s tunnel invited")
    case False
    with valid show ?thesis by (simp add: createGame_impossible perform_def)
  next
    case True
    with fails obtain e' where "listeners E (NewGame (entities ?gb)) = Some e'" by auto
    with valid True show ?thesis by (simp add: createGame_vetoed notified_def)
  qed
  from late early show ?thesis by blast
qed

text \<open>
  The reply to Alice cannot be sent: her call is rejected, and the board of her game
  against the AI is in the registry.
\<close>

theorem createGame_reply_failure_keeps_board_witness:
  "isInteractionValid unreachable idle lobby \<and> isNewGamePossible unreachable idle lobby None
   \<and> listeners unreachable (NewGame (entities (constructed_board unreachable lobby None idle))) = None
   \<and> replyWith unreachable lobby (BoardContent (constructed_board unreachable lobby None idle))
       = Inl (Thrown (Some ''Missing Access''))
   \<and> fst (createGame unreachable lobby None idle) = Rejected (Some (Thrown (Some ''Missing Access'')))
   \<and> gameboards (snd (createGame unreachable lobby None idle)) =
       [\<lparr>board_ref = 1, board_tunnel = lobby,
         entities = [Member alice, Computer \<lparr>ai_ref = 0, ai_level = Some 2\<rparr>],
         board_config = settings\<rparr>]
   \<and> isInteractionValid vetoing idle lobby
   \<and> listeners vetoing (NewGame (entities (constructed_board vetoing lobby None idle))) \<noteq> None
   \<and> gameboards (snd (createGame vetoing lobby None idle)) = []"
proof -
  have pre: "isInteractionValid unreachable idle lobby" "isNewGamePossible unreachable idle lobby None"
    "listeners unreachable (NewGame (entities (constructed_board unreachable lobby None idle))) = None"
    "replyWith unreachable lobby (BoardContent (constructed_board unreachable lobby None idle))
       = Inl (Thrown (Some ''Missing Access''))"
    by (simp_all add: unreachable_def calm_def validator_isNewGamePossible_def idle_def)
  have pre': "isInteractionValid vetoing idle lobby"
    "listeners vetoing (NewGame (entities (constructed_board vetoing lobby None idle))) \<noteq> None"
    by (simp_all add: vetoing_def calm_def)
  have board: "constructed_board unreachable lobby None idle =
       \<lparr>board_ref = 1, board_tunnel = lobby,
         entities = [Member alice, Computer \<lparr>ai_ref = 0, ai_level = Some 2\<rparr>],
         board_config = settings\<rparr>"
    by (simp add: constructed_board_def createAI_def new_GameBoard_def Let_def unreachable_def
        calm_def idle_def settings_def lobby_def)
  from createGame_reply_failure_keeps_board [of unreachable idle lobby None "Thrown (Some ''Missing Access'')"] pre
  have late: "fst (createGame unreachable lobby None idle) = Rejected (Some (Thrown (Some ''Missing Access'')))"
    "gameboards (snd (createGame unreachable lobby None idle))
       = gameboards idle @ [constructed_board unreachable lobby None idle]"
    by blast+
  from createGame_reply_failure_keeps_board [of vetoing idle lobby None] pre'
  have early: "gameboards (snd (createGame vetoing lobby None idle)) = gameboards idle"
    by blast
  have empty: "gameboards idle = []"
    by (simp add: idle_def)
  from pre pre' late early show ?thesis
    by (simp only: board empty append_Nil simp_thms)
qed

section \<open>Order of the effects\<close>

text \<open>
  Claim C4. In every run of \<^verbatim>\<open>requestDuel\<close> and of \<^verbatim>\<open>createGame\<close>, no action that reads
  or changes the registry comes at or after the first \<^verbatim>\<open>await\<close>. When the run reaches
  an \<^verbatim>\<open>await\<close>, the first one is the awaited \<^verbatim>\<open>replyWith\<close>, and what precedes it is
  the two calls of the validator and, in \<^verbatim>\<open>createGame\<close>, the \<^verbatim>\<open>newGame\<close> notification
  followed by the append to the registry.
\<close>

theorem registry_access_precedes_await:
  "list_all (\<lambda>a. \<not> is_registry_access a)
     (dropWhile (\<lambda>a. \<not> is_await a) (performed s (snd (createGame E tunnel invited s))))
   \<and> list_all (\<lambda>a. \<not> is_registry_access a)
     (dropWhile (\<lambda>a. \<not> is_await a) (performed s (snd (requestDuel E tunnel guest s))))
   \<and> (list_ex is_await (performed s (snd (createGame E tunnel invited s))) \<longrightarrow>
        takeWhile (\<lambda>a. \<not> is_await a) (performed s (snd (createGame E tunnel invited s))) =
          [Validate IsInteractionValid, Validate IsNewGamePossible,
           Emit (NewGame (entities (constructed_board E tunnel invited s))),
           Push (constructed_board E tunnel invited s)]
        \<and> hd (dropWhile (\<lambda>a. \<not> is_await a) (performed s (snd (createGame E tunnel invited s)))) =
            Await (ReplyWith tunnel (BoardContent (constructed_board E tunnel invited s))))
   \<and> (list_ex is_await (performed s (snd (requestDuel E tunnel guest s))) \<longrightarrow>
        takeWhile (\<lambda>a. \<not> is_await a) (performed s (snd (requestDuel E tunnel guest s))) =
          [Validate IsInteractionValid, Validate IsNewGamePossible]
        \<and> hd (dropWhile (\<lambda>a. \<not> is_await a) (performed s (snd (requestDuel E tunnel guest s)))) =
            Await (ReplyWith tunnel (DuelContent (constructed_duel E tunnel guest s))))"
proof -
  let ?after = "\<lambda>s'. dropWhile (\<lambda>a. \<not> is_await a) (performed s s')"
  let ?before = "\<lambda>s'. takeWhile (\<lambda>a. \<not> is_await a) (performed s s')"
  let ?gb = "constructed_board E tunnel invited s"
  let ?duel = "constructed_duel E tunnel guest s"
  have game: "list_all (\<lambda>a. \<not> is_registry_access a) (?after (snd (createGame E tunnel invited s)))
      \<and> (list_ex is_await (performed s (snd (createGame E tunnel invited s))) \<longrightarrow>
           ?before (snd (createGame E tunnel invited s)) =
             [Validate IsInteractionValid, Validate IsNewGamePossible, Emit (NewGame (entities ?gb)), Push ?gb]
           \<and> hd (?after (snd (createGame E tunnel invited s))) = Await (ReplyWith tunnel (BoardContent ?gb)))"
  proof (cases "isInteractionValid E s tunnel")
    case False
    then show ?thesis by (simp add: createGame_invalid perform_def performed_def)
  next
    case valid: True
    show ?thesis
    proof (cases "isNewGamePossible E s tunnel invited")
      case False
      with valid show ?thesis by (simp add: createGame_impossible perform_def performed_def)
    next
      case possible: True
      show ?thesis
      proof (cases "listeners E (NewGame (entities ?gb))")
        case (Some e)
        with valid possible show ?thesis
          by (simp add: createGame_vetoed notified_def performed_def)
      next
        case quiet: None
        show ?thesis
        proof (cases "replyWith E tunnel (BoardContent ?gb)")
          case (Inl e)
          with valid possible quiet show ?thesis
            by (simp add: createGame_reply_rejected appended_def performed_def)
        next
          case (Inr msg)
          with valid possible quiet show ?thesis
            by (simp add: createGame_attached appended_def performed_def perform_def)
        qed
      qed
    qed
  qed
  have duel: "list_all (\<lambda>a. \<not> is_registry_access a) (?after (snd (requestDuel E tunnel guest s)))
      \<and> (list_ex is_await (performed s (snd (requestDuel E tunnel guest s))) \<longrightarrow>
           ?before (snd (requestDuel E tunnel guest s)) =
             [Validate IsInteractionValid, Validate IsNewGamePossible]
           \<and> hd (?after (snd (requestDuel E tunnel guest s))) = Await (ReplyWith tunnel (DuelContent ?duel)))"
  proof (cases "isInteractionValid E s tunnel")
    case False
    then show ?thesis by (simp add: requestDuel_invalid perform_def performed_def)
  next
    case valid: True
    show ?thesis
    proof (cases "isNewGamePossible E s tunnel (Some guest)")
      case False
      with valid show ?thesis by (simp add: requestDuel_impossible perform_def performed_def)
    next
      case possible: True
      show ?thesis
      proof (cases "replyWith E tunnel (DuelContent ?duel)")
        case (Inl e)
        with valid possible show ?thesis
          by (simp add: requestDuel_reply_rejected replied_def performed_def)
      next
        case (Inr msg)
        show ?thesis
        proof (cases "duel_attachTo E ?duel msg")
          case (Some e)
          with valid possible Inr show ?thesis
            by (simp add: requestDuel_attach_rejected replied_def performed_def perform_def)
        next
          case None
          with valid possible Inr show ?thesis
            by (simp add: requestDuel_attached replied_def performed_def perform_def Let_def)
        qed
      qed
    qed
  qed
  from game duel show ?thesis by blast
qed

text \<open>
  Alice starts a game against the AI, and invites Bob to a duel: the runs in full. The
  only action after the awaits is the write of the cooldown map.
\<close>

theorem registry_access_precedes_await_witness:
  "performed idle (snd (createGame calm lobby None idle)) =
     [Validate IsInteractionValid, Validate IsNewGamePossible,
      Emit (NewGame (entities (constructed_board calm lobby None idle))),
      Push (constructed_board calm lobby None idle),
      Await (ReplyWith lobby (BoardContent (constructed_board calm lobby None idle))),
      Await (BoardAttachTo 1 500)]
   \<and> performed idle (snd (requestDuel calm lobby bob idle)) =
     [Validate IsInteractionValid, Validate IsNewGamePossible,
      Await (ReplyWith lobby (DuelContent (constructed_duel calm lobby bob idle))),
      Await (DuelAttachTo 0 500),
      SetCooldown ''1001'' 1700000030000]
   \<and> list_ex is_await (performed idle (snd (createGame calm lobby None idle)))
   \<and> list_ex is_await (performed idle (snd (requestDuel calm lobby bob idle)))
   \<and> takeWhile (\<lambda>a. \<not> is_await a) (performed idle (snd (createGame calm lobby None idle))) =
       [Validate IsInteractionValid, Validate IsNewGamePossible,
        Emit (NewGame (entities (constructed_board calm lobby None idle))),
        Push (constructed_board calm lobby None idle)]
   \<and> takeWhile (\<lambda>a. \<not> is_await a) (performed idle (snd (requestDuel calm lobby bob idle))) =
       [Validate IsInteractionValid, Validate IsNewGamePossible]"
proof -
  have pre: "isInteractionValid calm idle lobby" "isNewGamePossible calm idle lobby None"
    "isNewGamePossible calm idle lobby (Some bob)"
    "listeners calm (NewGame (entities (constructed_board calm lobby None idle))) = None"
    "replyWith calm lobby (BoardContent (constructed_board calm lobby None idle)) = Inr 500"
    "replyWith calm lobby (DuelContent (constructed_duel calm lobby bob idle)) = Inr 500"
    "duel_attachTo calm (constructed_duel calm lobby bob idle) 500 = None"
    "board_attachTo calm (constructed_board calm lobby None idle) 500 = None"
    by (simp_all add: calm_def validator_isNewGamePossible_def idle_def)
  have refs: "board_ref (constructed_board calm lobby None idle) = 1"
    "duel_ref (constructed_duel calm lobby bob idle) = 0"
    by (simp_all add: constructed_board_def constructed_duel_def createAI_eq new_GameBoard_def
        new_DuelRequest_def idle_def)
  have game: "performed idle (snd (createGame calm lobby None idle)) =
     [Validate IsInteractionValid, Validate IsNewGamePossible,
      Emit (NewGame (entities (constructed_board calm lobby None idle))),
      Push (constructed_board calm lobby None idle),
      Await (ReplyWith lobby (BoardContent (constructed_board calm lobby None idle))),
      Await (BoardAttachTo 1 500)]"
    using pre by (simp add: createGame_attached appended_def perform_def performed_def refs)
  have cooldown: "requestCooldownTime (configuration calm) = Some 30" "date_now calm = 1700000000000"
    "user_id (author lobby) = ''1001''"
    by (simp_all add: calm_def settings_def lobby_def alice_def)
  have duel: "performed idle (snd (requestDuel calm lobby bob idle)) =
     [Validate IsInteractionValid, Validate IsNewGamePossible,
      Await (ReplyWith lobby (DuelContent (constructed_duel calm lobby bob idle))),
      Await (DuelAttachTo 0 500),
      SetCooldown ''1001'' 1700000030000]"
    using pre by (simp add: requestDuel_attached replied_def perform_def performed_def refs cooldown Let_def)
  have awaits: "list_ex is_await (performed idle (snd (createGame calm lobby None idle)))"
    "list_ex is_await (performed idle (snd (requestDuel calm lobby bob idle)))"
    by (simp_all add: game duel)
  from registry_access_precedes_await [of idle calm lobby None bob] awaits
  have "takeWhile (\<lambda>a. \<not> is_await a) (performed idle (snd (createGame calm lobby None idle))) =
       [Validate IsInteractionValid, Validate IsNewGamePossible,
        Emit (NewGame (entities (constructed_board calm lobby None idle))),
        Push (constructed_board calm lobby None idle)]"
    and "takeWhile (\<lambda>a. \<not> is_await a) (performed idle (snd (requestDuel calm lobby bob idle))) =
       [Validate IsInteractionValid, Validate IsNewGamePossible]"
    by blast+
  with game duel awaits show ?thesis
    by (intro conjI)
qed

section \<open>requestDuel and the validity gate\<close>

text \<open>
  Claim C6, as amended. For every call of \<^verbatim>\<open>requestDuel\<close> that passes the
  \<^verbatim>\<open>isInteractionValid\<close> gate and resolves: if the configured cooldown is greater than 0,
  the cooldown map afterwards is the one before with the identity of the inviter mapped
  to \<^verbatim>\<open>Date.now()\<close> plus the cooldown in milliseconds (30 s gives now + 30000); if the
  cooldown is unset or not greater than 0, the cooldown map is unchanged. Nothing in the
  call waits for the answer of the invited member.
\<close>

theorem requestDuel_cooldown:
  assumes valid: "isInteractionValid E s tunnel"
    and resolved: "fst (requestDuel E tunnel invited s) = Resolved"
  shows "memberCooldownEndTimes (snd (requestDuel E tunnel invited s)) =
           (case requestCooldownTime (configuration E) of
              None \<Rightarrow> memberCooldownEndTimes s
            | Some cooldown \<Rightarrow>
                if cooldown > 0
                then (memberCooldownEndTimes s)
                       (user_id (author tunnel) \<mapsto> date_now E + cooldown * 1000)
                else memberCooldownEndTimes s)"
proof -
  let ?duel = "constructed_duel E tunnel invited s"
  have possible: "isNewGamePossible E s tunnel (Some invited)"
  proof (rule ccontr)
    assume "\<not> isNewGamePossible E s tunnel (Some invited)"
    with valid have "fst (requestDuel E tunnel invited s) = Rejected None"
      by (simp add: requestDuel_impossible)
    with resolved show False by simp
  qed
  obtain msg where sent: "replyWith E tunnel (DuelContent ?duel) = Inr msg"
  proof (cases "replyWith E tunnel (DuelContent ?duel)")
    case (Inl e)
    with valid possible resolved show ?thesis by (simp add: requestDuel_reply_rejected)
  next
    case (Inr msg)
    with that show ?thesis .
  qed
  have attached: "duel_attachTo E ?duel msg = None"
  proof (cases "duel_attachTo E ?duel msg")
    case None
    then show ?thesis .
  next
    case (Some e)
    with valid possible sent resolved show ?thesis by (simp add: requestDuel_attach_rejected)
  qed
  show ?thesis
    by (simp add: requestDuel_attached [OF valid possible sent attached] Let_def perform_def
        replied_def split: option.splits)
qed

text \<open>Alice invites Bob with a cooldown of 30 seconds, at time 1700000000000.\<close>

theorem requestDuel_cooldown_witness:
  "isInteractionValid calm idle lobby
   \<and> fst (requestDuel calm lobby bob idle) = Resolved
   \<and> requestCooldownTime (configuration calm) = Some 30
   \<and> memberCooldownEndTimes (snd (requestDuel calm lobby bob idle)) ''1001'' = Some 1700000030000
   \<and> memberCooldownEndTimes (snd (requestDuel calm lobby bob idle)) ''1002'' = None"
proof -
  have valid: "isInteractionValid calm idle lobby"
    by (simp add: calm_def)
  have resolved: "fst (requestDuel calm lobby bob idle) = Resolved"
    by (simp add: requestDuel_def new_DuelRequest_def await_replyWith_def perform_def Let_def
        calm_def validator_isNewGamePossible_def idle_def settings_def)
  have cooldown: "requestCooldownTime (configuration calm) = Some 30" "date_now calm = 1700000000000"
    "user_id (author lobby) = ''1001''" "memberCooldownEndTimes idle = Map.empty"
    by (simp_all add: calm_def settings_def lobby_def alice_def idle_def)
  from requestDuel_cooldown [OF valid resolved] valid resolved show ?thesis
    by (simp add: cooldown)
qed

text \<open>
  Claim C6 as stated fails when the interaction is not valid: the call resolves, the
  cooldown is 30 seconds, and nothing is recorded for the inviter.
\<close>

theorem requestDuel_stale_cooldown_counterexample:
  "fst (requestDuel stale lobby bob idle) = Resolved
   \<and> requestCooldownTime (configuration stale) = Some 30
   \<and> memberCooldownEndTimes (snd (requestDuel stale lobby bob idle)) (user_id (author lobby)) = None"
  by (simp add: requestDuel_def perform_def Let_def stale_def calm_def settings_def idle_def)

text \<open>
  Claim C7, as amended. For every tunnel for which \<^verbatim>\<open>isInteractionValid\<close> is false,
  \<^verbatim>\<open>requestDuel\<close> and \<^verbatim>\<open>createGame\<close> do nothing and resolve: the promise is not rejected,
  no object is constructed, nothing is sent, and the registry and the cooldown map are
  unchanged; the only effect is the call of the validator.
\<close>

theorem invalid_interaction_resolves:
  assumes invalid: "\<not> isInteractionValid E s tunnel"
  shows "requestDuel E tunnel invited s = (Resolved, s\<lparr>trace := trace s @ [Validate IsInteractionValid]\<rparr>)
       \<and> createGame E tunnel opponent s = (Resolved, s\<lparr>trace := trace s @ [Validate IsInteractionValid]\<rparr>)
       \<and> gameboards (snd (requestDuel E tunnel invited s)) = gameboards s
       \<and> memberCooldownEndTimes (snd (requestDuel E tunnel invited s)) = memberCooldownEndTimes s
       \<and> allocated (snd (requestDuel E tunnel invited s)) = allocated s
       \<and> gameboards (snd (createGame E tunnel opponent s)) = gameboards s
       \<and> memberCooldownEndTimes (snd (createGame E tunnel opponent s)) = memberCooldownEndTimes s
       \<and> allocated (snd (createGame E tunnel opponent s)) = allocated s"
  using invalid by (simp add: requestDuel_invalid createGame_invalid perform_def)

theorem invalid_interaction_resolves_witness:
  "\<not> isInteractionValid stale one_game lobby
   \<and> requestDuel stale lobby bob one_game = (Resolved, one_game\<lparr>trace := [Validate IsInteractionValid]\<rparr>)
   \<and> createGame stale lobby None one_game = (Resolved, one_game\<lparr>trace := [Validate IsInteractionValid]\<rparr>)"
proof -
  have invalid: "\<not> isInteractionValid stale one_game lobby"
    by (simp add: stale_def)
  have "trace one_game = []"
    by (simp add: one_game_def)
  with invalid_interaction_resolves [OF invalid, of bob None] invalid show ?thesis
    by simp
qed

text \<open>
  Claim C7 as stated fails: with an interaction that is not valid the promise of
  \<^verbatim>\<open>requestDuel\<close> is resolved, not rejected.
\<close>

theorem requestDuel_stale_counterexample:
  "\<not> isInteractionValid stale idle lobby
   \<and> fst (requestDuel stale lobby bob idle) = Resolved
   \<and> fst (createGame stale lobby (Some bob) idle) = Resolved"
  by (simp add: requestDuel_def createGame_def perform_def Let_def stale_def calm_def idle_def)

section \<open>The command\<close>

text \<open>
  Claim C8. For every invitation that names an invited member: when the invited member
  is a bot account the promise is rejected with \<^verbatim>\<open>duel.no-bot\<close>; otherwise, when the
  invited member is the inviter or has no \<^verbatim>\<open>ViewChannel\<close> permission in the channel of the
  tunnel, it is rejected with \<^verbatim>\<open>duel.unknown-user\<close>. In these cases the manager is not
  called: the state is the one before, with no duel request or game created.
\<close>

theorem processInvitation_rejections:
  "(user_bot guest \<longrightarrow>
      processInvitation E tunnel inviter (Some guest) s = (Rejected ''duel.no-bot'', s))
   \<and> (\<not> user_bot guest
       \<and> (user_id inviter = user_id guest
          \<or> ''ViewChannel'' \<notin> set (permissionsIn E guest (channel tunnel))) \<longrightarrow>
      processInvitation E tunnel inviter (Some guest) s = (Rejected ''duel.unknown-user'', s))"
  by (simp add: processInvitation_def)

text \<open>Alice invites a bot, herself, and Carol, who cannot see the channel.\<close>

theorem processInvitation_rejections_witness:
  "user_bot musicbot
   \<and> processInvitation calm lobby alice (Some musicbot) idle = (Rejected ''duel.no-bot'', idle)
   \<and> \<not> user_bot alice \<and> user_id alice = user_id alice
   \<and> processInvitation calm lobby alice (Some alice) idle = (Rejected ''duel.unknown-user'', idle)
   \<and> \<not> user_bot carol \<and> ''ViewChannel'' \<notin> set (permissionsIn calm carol (channel lobby))
   \<and> processInvitation calm lobby alice (Some carol) idle = (Rejected ''duel.unknown-user'', idle)"
proof -
  have bot: "user_bot musicbot"
    by (simp add: musicbot_def)
  have self: "\<not> user_bot alice \<and> (user_id alice = user_id alice
       \<or> ''ViewChannel'' \<notin> set (permissionsIn calm alice (channel lobby)))"
    by (simp add: alice_def)
  have blind: "\<not> user_bot carol" "''ViewChannel'' \<notin> set (permissionsIn calm carol (channel lobby))"
    by (simp_all add: carol_def calm_def)
  from processInvitation_rejections [of musicbot calm lobby alice idle] bot
  have one: "processInvitation calm lobby alice (Some musicbot) idle = (Rejected ''duel.no-bot'', idle)"
    by blast
  from processInvitation_rejections [of alice calm lobby alice idle] self
  have two: "processInvitation calm lobby alice (Some alice) idle = (Rejected ''duel.unknown-user'', idle)"
    by blast
  from processInvitation_rejections [of carol calm lobby alice idle] blind
  have three: "processInvitation calm lobby alice (Some carol) idle = (Rejected ''duel.unknown-user'', idle)"
    by blast
  from bot self blind one two three show ?thesis
    by (intro conjI) simp_all
qed

section \<open>The validator\<close>

text \<open>
  Claim C5. For every member that participates in an entry of the registry,
  \<^verbatim>\<open>isNewGamePossible\<close> is false for every request that names the member as the author of
  the tunnel or as the invited member, whatever the channel of the tunnel; with this
  validator \<^verbatim>\<open>createGame\<close> and \<^verbatim>\<open>requestDuel\<close>, once past the validity gate, are rejected
  and leave the registry as it is.
\<close>

theorem isNewGamePossible_participant:
  assumes entry: "gameboard \<in> set (gameboards s)"
    and playing: "participates m gameboard"
    and named: "author tunnel = m \<or> invited = Some m"
  shows "\<not> validator_isNewGamePossible s (tunnel\<lparr>channel := c\<rparr>) invited
       \<and> (isNewGamePossible E = validator_isNewGamePossible \<and> isInteractionValid E s tunnel \<longrightarrow>
            fst (createGame E tunnel invited s) = Rejected None
            \<and> gameboards (snd (createGame E tunnel invited s)) = gameboards s
            \<and> (\<forall>guest. invited = Some guest \<longrightarrow>
                  fst (requestDuel E tunnel guest s) = Rejected None
                  \<and> gameboards (snd (requestDuel E tunnel guest s)) = gameboards s))"
proof -
  have refused: "\<not> validator_isNewGamePossible s (tunnel\<lparr>channel := c\<rparr>) invited" for c
    using entry playing named
    by (auto simp: validator_isNewGamePossible_def list_ex_iff)
  from refused [of "channel tunnel"] have here: "\<not> validator_isNewGamePossible s tunnel invited"
    by simp
  have gate: "fst (createGame E tunnel invited s) = Rejected None
            \<and> gameboards (snd (createGame E tunnel invited s)) = gameboards s
            \<and> (\<forall>guest. invited = Some guest \<longrightarrow>
                  fst (requestDuel E tunnel guest s) = Rejected None
                  \<and> gameboards (snd (requestDuel E tunnel guest s)) = gameboards s)"
    if "isNewGamePossible E = validator_isNewGamePossible" and "isInteractionValid E s tunnel"
    using that here
    by (auto simp: createGame_impossible requestDuel_impossible perform_def)
  from refused gate show ?thesis by blast
qed

text \<open>
  Alice plays with Bob in channel 7. She cannot start a game against the AI from
  channel 8, and Carol cannot invite Bob from there.
\<close>

theorem isNewGamePossible_participant_witness:
  "board_ab \<in> set (gameboards one_game)
   \<and> participates alice board_ab \<and> participates bob board_ab
   \<and> \<not> validator_isNewGamePossible one_game (lobby\<lparr>channel := 8\<rparr>) None
   \<and> \<not> validator_isNewGamePossible one_game (\<lparr>author = carol, channel = 7\<rparr>\<lparr>channel := 8\<rparr>) (Some bob)
   \<and> fst (createGame calm lobby None one_game) = Rejected None
   \<and> gameboards (snd (createGame calm lobby None one_game)) = [board_ab]"
proof -
  have entry: "board_ab \<in> set (gameboards one_game)"
    by (simp add: one_game_def)
  have playing: "participates alice board_ab" "participates bob board_ab"
    by (simp_all add: participates_def board_ab_def)
  have named: "author lobby = alice \<or> None = Some alice"
    "author \<lparr>author = carol, channel = 7\<rparr> = bob \<or> Some bob = Some bob"
    by (simp_all add: lobby_def)
  have gate: "isNewGamePossible calm = validator_isNewGamePossible \<and> isInteractionValid calm one_game lobby"
    by (simp add: calm_def)
  have boards: "gameboards one_game = [board_ab]"
    by (simp add: one_game_def)
  from isNewGamePossible_participant [OF entry playing(1) named(1), of 8 calm] gate
  have first: "\<not> validator_isNewGamePossible one_game (lobby\<lparr>channel := 8\<rparr>) None"
    "fst (createGame calm lobby None one_game) = Rejected None"
    "gameboards (snd (createGame calm lobby None one_game)) = gameboards one_game"
    by blast+
  from isNewGamePossible_participant [OF entry playing(2) named(2), of 8 calm]
  have second: "\<not> validator_isNewGamePossible one_game (\<lparr>author = carol, channel = 7\<rparr>\<lparr>channel := 8\<rparr>) (Some bob)"
    by blast
  from entry playing first second show ?thesis
    by (simp only: boards simp_thms)
qed

end
